theory Spec2Isabelle
  imports Main "HOL-Library.Multiset" "HOL-Library.Sublist"
begin

section \<open>Python values and their string forms\<close>

text \<open>
  A \<^typ>\<open>string\<close> stands for a Python \<open>str\<close> whose code points are below 256; a
  \<^typ>\<open>char\<close> is one code point. Python's integers are \<^typ>\<open>int\<close>.
\<close>

subsection \<open>Formatting of integers\<close>

definition digit_char :: "nat \<Rightarrow> char" where
  "digit_char n = ''0123456789abcdef'' ! n"

function str_nat :: "nat \<Rightarrow> string" where
  "str_nat n = (if n < 10 then [digit_char n] else str_nat (n div 10) @ [digit_char (n mod 10)])"
  by pat_completeness auto
termination
  by (relation "measure id") auto

declare str_nat.simps [simp del]

text \<open>\<open>"%+d" % k\<close>.\<close>

definition fmt_plus_d :: "int \<Rightarrow> string" where
  "fmt_plus_d k = (if k < 0 then ''-'' else ''+'') @ str_nat (nat \<bar>k\<bar>)"

text \<open>\<open>"%0wd" % n\<close> for a non-negative \<open>n\<close>.\<close>

definition fmt_0d :: "nat \<Rightarrow> nat \<Rightarrow> string" where
  "fmt_0d w n = (let ds = str_nat n in replicate (w - length ds) CHR ''0'' @ ds)"

text \<open>Two hexadecimal digits of a byte, in lower and in upper case.\<close>

definition hex2 :: "nat \<Rightarrow> string" where
  "hex2 n = [digit_char (n div 16 mod 16), digit_char (n mod 16)]"

definition HEX2 :: "nat \<Rightarrow> string" where
  "HEX2 n = [''0123456789ABCDEF'' ! (n div 16 mod 16), ''0123456789ABCDEF'' ! (n mod 16)]"

subsection \<open>\<open>decimal.Decimal\<close>\<close>

text \<open>
  A finite \<open>Decimal\<close> as Python stores it: the sign (\<open>_sign\<close>, true when negative), the
  coefficient (\<open>_int\<close>, a digit string without leading zeros, here its number) and the
  exponent (\<open>_exp\<close>). \<open>Decimal('123.45')\<close> is sign false, coefficient 12345, exponent -2.
\<close>

record decimal =
  dsign :: bool
  dint :: nat
  dexp :: int

text \<open>
  \<open>Decimal.__str__\<close> (scientific notation, default context with capital \<open>E\<close>):
  \<^verbatim>\<open>
  sign = ['', '-'][self._sign]
  leftdigits = self._exp + len(self._int)
  if self._exp <= 0 and leftdigits > -6: dotplace = leftdigits
  else: dotplace = 1
  if dotplace <= 0:
      intpart = '0'; fracpart = '.' + '0'*(-dotplace) + self._int
  elif dotplace >= len(self._int):
      intpart = self._int + '0'*(dotplace-len(self._int)); fracpart = ''
  else:
      intpart = self._int[:dotplace]; fracpart = '.' + self._int[dotplace:]
  if leftdigits == dotplace: exp = ''
  else: exp = 'E' + "%+d" % (leftdigits-dotplace)
  return sign + intpart + fracpart + exp
  \<close>
\<close>

definition Decimal_str :: "decimal \<Rightarrow> string" where
  "Decimal_str d =
     (let sign = (if dsign d then ''-'' else '''');
          ds = str_nat (dint d);
          leftdigits = dexp d + int (length ds);
          dotplace = (if dexp d \<le> 0 \<and> leftdigits > - 6 then leftdigits else 1);
          intpart = (if dotplace \<le> 0 then ''0''
                     else if dotplace \<ge> int (length ds)
                       then ds @ replicate (nat (dotplace - int (length ds))) CHR ''0''
                     else take (nat dotplace) ds);
          fracpart = (if dotplace \<le> 0 then ''.'' @ replicate (nat (- dotplace)) CHR ''0'' @ ds
                      else if dotplace \<ge> int (length ds) then ''''
                      else ''.'' @ drop (nat dotplace) ds);
          exp = (if leftdigits = dotplace then '''' else ''E'' @ fmt_plus_d (leftdigits - dotplace))
      in sign @ intpart @ fracpart @ exp)"

subsection \<open>\<open>datetime.datetime\<close>\<close>

text \<open>
  A \<open>datetime\<close> with its fields; \<open>utcoffset\<close> is \<open>None\<close> for a naive value and the
  offset from UTC in whole seconds for an aware one.
\<close>

record datetime =
  year :: nat
  month :: nat
  day :: nat
  hour :: nat
  minute :: nat
  second :: nat
  microsecond :: nat
  utcoffset :: "int option"

text \<open>
  \<open>datetime.__str__\<close> is \<open>isoformat(sep=' ')\<close>: the date, the time with microseconds
  only when they are not zero, and the offset \<open>+HH:MM\<close> (with \<open>:SS\<close> when it has
  seconds) of an aware value.
\<close>

definition format_offset :: "int option \<Rightarrow> string" where
  "format_offset off =
     (case off of
        None \<Rightarrow> ''''
      | Some k \<Rightarrow>
          (let sign = (if k < 0 then ''-'' else ''+'');
               a = nat \<bar>k\<bar>;
               hh = a div 3600;
               mm = a mod 3600 div 60;
               ss = a mod 60
           in sign @ fmt_0d 2 hh @ '':'' @ fmt_0d 2 mm @
              (if ss \<noteq> 0 then '':'' @ fmt_0d 2 ss else '''')))"

definition datetime_str :: "datetime \<Rightarrow> string" where
  "datetime_str t =
     fmt_0d 4 (year t) @ ''-'' @ fmt_0d 2 (month t) @ ''-'' @ fmt_0d 2 (day t) @ '' '' @
     fmt_0d 2 (hour t) @ '':'' @ fmt_0d 2 (minute t) @ '':'' @ fmt_0d 2 (second t) @
     (if microsecond t \<noteq> 0 then ''.'' @ fmt_0d 6 (microsecond t) else '''') @
     format_offset (utcoffset t)"

subsection \<open>\<open>repr\<close> of a string\<close>

text \<open>
  \<open>repr(s)\<close> encloses \<open>s\<close> in single quotes, or in double quotes when \<open>s\<close> has a single
  quote and no double quote. It escapes the backslash and the enclosing quote with a
  backslash, writes tab, newline and carriage return as \<open>\t\<close>, \<open>\n\<close>, \<open>\r\<close>, and every
  other code point that is not printable (below 32, 127 to 160, and 173) as \<open>\xhh\<close>.
\<close>

definition repr_char :: "char \<Rightarrow> char \<Rightarrow> string" where
  "repr_char q c =
     (let n = (of_char c :: nat) in
      if c = q \<or> n = 92 then [CHR 0x5C, c]
      else if n = 9 then [CHR 0x5C, CHR ''t'']
      else if n = 10 then [CHR 0x5C, CHR ''n'']
      else if n = 13 then [CHR 0x5C, CHR ''r'']
      else if n < 32 \<or> (127 \<le> n \<and> n \<le> 160) \<or> n = 173 then [CHR 0x5C, CHR ''x''] @ hex2 n
      else [c])"

definition repr_str :: "string \<Rightarrow> string" where
  "repr_str s =
     (let q = (if CHR 0x27 \<in> set s \<and> CHR 0x22 \<notin> set s then CHR 0x22 else CHR 0x27)
      in [q] @ concat (map (repr_char q) s) @ [q])"

subsection \<open>Values handed to the JSON encoder\<close>

datatype pyval =
    PyNone
  | PyBool bool
  | PyInt int
  | PyStr string
  | PyDecimal decimal
  | PyList "pyval list"
  | PyDict "(string \<times> pyval) list"

datatype json =
    JNull
  | JBool bool
  | JNumber int
  | JString string
  | JArray "json list"
  | JObject "(string \<times> json) list"

text \<open>
  \<open>DjangoJSONEncoder\<close>, the encoder of \<open>JsonResponse\<close>: \<open>None\<close>, booleans, integers,
  strings, lists and dictionaries are JSON values of their own kind; a \<open>Decimal\<close> is
  not, and the encoder's \<open>default\<close> turns it into the string \<open>str(o)\<close>. The test
  \<open>ProductsExportViewTestCase.test_get_products_view\<close> reads the exported price back as
  \<open>str(product.price)\<close>.
\<close>

primrec DjangoJSONEncoder :: "pyval \<Rightarrow> json" where
  "DjangoJSONEncoder PyNone = JNull"
| "DjangoJSONEncoder (PyBool b) = JBool b"
| "DjangoJSONEncoder (PyInt k) = JNumber k"
| "DjangoJSONEncoder (PyStr s) = JString s"
| "DjangoJSONEncoder (PyDecimal d) = JString (Decimal_str d)"
| "DjangoJSONEncoder (PyList xs) = JArray (map DjangoJSONEncoder xs)"
| "DjangoJSONEncoder (PyDict kvs) = JObject (map (map_prod id DjangoJSONEncoder) kvs)"

section \<open>The entity store\<close>

text \<open>
  Modelled from the spec: the model declarations (\<open>shopapp/models.py\<close>) are not among
  the sources. The fields and their types are the data model of the specification: a
  product has a name, a decimal price, a description, a numeric discount, the
  \<open>archived\<close> flag and an optional preview; an order has its owner's identifier, a
  promocode, a delivery address, its creation time and a many-to-many set of products.
  Every row has the primary key \<open>pk\<close> of the framework's \<open>Model\<close>.
\<close>

record model =
  pk :: int

record product = model +
  name :: string
  price :: decimal
  description :: string
  discount :: int
  archived :: bool
  preview :: "string option"

record order = model +
  delivery_address :: string
  created_at :: datetime
  user_id :: int
  promocode :: string

text \<open>
  The state a request handler reads and writes: the two tables in the order in which
  the database returns their rows, the join table of the many-to-many relation (pairs of
  an order's and a product's key), and the session of the requesting client.
\<close>

record state =
  Product_objects :: "product list"
  Order_objects :: "order list"
  Order_products :: "(int \<times> int) list"
  session :: "(string \<times> string) list"

text \<open>\<open>order_by('pk')\<close>: the rows in ascending order of the key.\<close>

definition order_by_pk :: "('a model_scheme) list \<Rightarrow> ('a model_scheme) list" where
  "order_by_pk rows = sort_key pk rows"

text \<open>\<open>filter(pk=k)\<close>.\<close>

definition filter_pk :: "int \<Rightarrow> ('a model_scheme) list \<Rightarrow> ('a model_scheme) list" where
  "filter_pk k rows = filter (\<lambda>r. pk r = k) rows"

text \<open>
  \<open>order.products.all()\<close>: the products joined to the order by the join table.
  \<open>product in queryset\<close> compares model instances, which are equal when their primary
  keys are.
\<close>

definition order_products_all :: "state \<Rightarrow> order \<Rightarrow> product list" where
  "order_products_all s ord =
     filter (\<lambda>p. (pk ord, pk p) \<in> set (Order_products s)) (Product_objects s)"

definition model_in :: "product \<Rightarrow> product list \<Rightarrow> bool" where
  "model_in p qs = list_ex (\<lambda>q. pk q = pk p) qs"

text \<open>
  \<open>instance.save()\<close> of an instance loaded from the table: the row with the instance's
  key is updated with the instance's fields; with no such row, the instance is inserted.
\<close>

definition save_product :: "product \<Rightarrow> state \<Rightarrow> state" where
  "save_product p s =
     (if list_ex (\<lambda>q. pk q = pk p) (Product_objects s)
      then s\<lparr>Product_objects := map (\<lambda>q. if pk q = pk p then p else q) (Product_objects s)\<rparr>
      else s\<lparr>Product_objects := Product_objects s @ [p]\<rparr>)"

section \<open>Requests and responses\<close>

text \<open>
  The requester is the framework's \<open>AnonymousUser\<close> or a logged-in \<open>User\<close> with its
  flags and the permissions it holds (its own and its groups').
\<close>

record account =
  active :: bool
  staff :: bool
  superuser :: bool
  perms :: "string list"

datatype requester = AnonymousUser | User account

fun is_authenticated :: "requester \<Rightarrow> bool" where
  "is_authenticated AnonymousUser = False"
| "is_authenticated (User a) = True"

fun is_staff :: "requester \<Rightarrow> bool" where
  "is_staff AnonymousUser = False"
| "is_staff (User a) = staff a"

fun is_superuser :: "requester \<Rightarrow> bool" where
  "is_superuser AnonymousUser = False"
| "is_superuser (User a) = superuser a"

text \<open>
  \<open>user.has_perm(perm)\<close> with the framework's model backend: an active superuser has
  every permission, another active user has the ones it holds, an inactive or anonymous
  user has none.
\<close>

fun has_perm :: "requester \<Rightarrow> string \<Rightarrow> bool" where
  "has_perm AnonymousUser perm = False"
| "has_perm (User a) perm = (active a \<and> (superuser a \<or> perm \<in> set (perms a)))"

definition has_perms :: "requester \<Rightarrow> string list \<Rightarrow> bool" where
  "has_perms u ps = list_all (has_perm u) ps"

text \<open>
  A request has the verb, the user, the cookies and the path with its query. The verbs
  are the two of the specification's HTTP surface, GET and POST.
\<close>

datatype http_method = GET | POST

record request =
  http_method :: http_method
  user :: requester
  COOKIES :: "(string \<times> string) list"
  full_path :: string

text \<open>
  What the project configures outside the views: \<open>settings.LOGIN_URL\<close> (a path
  without a query) and the URL of each named route (\<open>reverse\<close>).
\<close>

record site =
  LOGIN_URL :: string
  reverse :: "string \<Rightarrow> string"

record cookie =
  cookie_key :: string
  cookie_value :: string
  max_age :: "nat option"

datatype ctxval = ProductRows "product list" | OrderRows "order list" | OrderRow order

text \<open>
  A response, or the exception that ends the request: a rendered template with its
  context, a plain body with the cookies it sets, a JSON body, a redirect, and the
  framework's answers to \<open>PermissionDenied\<close> (403), \<open>Http404\<close>, a verb without a
  handler (405) and any other exception (500).
\<close>

datatype response =
    Rendered string "(string \<times> ctxval) list"
  | HttpResponse string "cookie list"
  | JsonBody json
  | HttpResponseRedirect string
  | PermissionDenied
  | Http404
  | HttpResponseNotAllowed
  | ServerError string

fun status_code :: "response \<Rightarrow> nat" where
  "status_code (Rendered t c) = 200"
| "status_code (HttpResponse b cs) = 200"
| "status_code (JsonBody j) = 200"
| "status_code (HttpResponseRedirect u) = 302"
| "status_code PermissionDenied = 403"
| "status_code Http404 = 404"
| "status_code HttpResponseNotAllowed = 405"
| "status_code (ServerError e) = 500"

text \<open>\<open>dict.get(key, default)\<close> on a dictionary kept as an association list.\<close>

definition dict_get :: "(string \<times> 'v) list \<Rightarrow> string \<Rightarrow> 'v \<Rightarrow> 'v" where
  "dict_get d k dflt = (case map_of d k of None \<Rightarrow> dflt | Some v \<Rightarrow> v)"

text \<open>\<open>d[key] = v\<close>: the key keeps its place when it is there, else it is added last.\<close>

fun dict_set :: "('k \<times> 'v) list \<Rightarrow> 'k \<Rightarrow> 'v \<Rightarrow> ('k \<times> 'v) list" where
  "dict_set [] k v = [(k, v)]"
| "dict_set ((k', v') # d) k v = (if k' = k then (k, v) # d else (k', v') # dict_set d k v)"

text \<open>
  \<open>JsonResponse(data)\<close>: a \<open>TypeError\<close> unless \<open>data\<close> is a dictionary, else the
  encoded body.
\<close>

definition JsonResponse :: "pyval \<Rightarrow> response" where
  "JsonResponse data =
     (case data of PyDict kvs \<Rightarrow> JsonBody (DjangoJSONEncoder data)
      | _ \<Rightarrow> ServerError ''TypeError'')"

section \<open>The access-control gate of the framework\<close>

text \<open>
  \<open>urllib.parse.quote(s, safe='/')\<close>: letters, digits, \<open>_.-~\<close> and \<open>/\<close> stay; every other
  code point is written as \<open>%XX\<close> for each byte of its UTF-8 encoding.
\<close>

definition quote_char :: "char \<Rightarrow> string" where
  "quote_char c =
     (let n = (of_char c :: nat) in
      if (65 \<le> n \<and> n \<le> 90) \<or> (97 \<le> n \<and> n \<le> 122) \<or> (48 \<le> n \<and> n \<le> 57)
         \<or> c \<in> set ''_.-~/'' then [c]
      else if n < 128 then ''%'' @ HEX2 n
      else ''%'' @ HEX2 (192 + n div 64) @ ''%'' @ HEX2 (128 + n mod 64))"

definition quote :: "string \<Rightarrow> string" where
  "quote s = concat (map quote_char s)"

text \<open>
  \<open>redirect_to_login(next, login_url)\<close>: a redirect to the login URL with the query
  \<open>next=<quoted path>\<close>.
\<close>

definition redirect_to_login :: "site \<Rightarrow> string \<Rightarrow> response" where
  "redirect_to_login st nxt = HttpResponseRedirect (LOGIN_URL st @ ''?next='' @ quote nxt)"

text \<open>
  \<open>AccessMixin.handle_no_permission\<close>: \<open>PermissionDenied\<close> when the mixin's
  \<open>raise_exception\<close> is set or the user is authenticated, else the redirect to the
  login URL.
\<close>

definition handle_no_permission :: "bool \<Rightarrow> site \<Rightarrow> request \<Rightarrow> response" where
  "handle_no_permission raise_exception st req =
     (if raise_exception \<or> is_authenticated (user req) then PermissionDenied
      else redirect_to_login st (full_path req))"

type_synonym handler = "request \<Rightarrow> state \<Rightarrow> response \<times> state"

text \<open>
  \<open>View.dispatch\<close>: the handler of the request's verb, or 405 when the view has none.
\<close>

definition View_dispatch :: "handler option \<Rightarrow> handler option \<Rightarrow> handler" where
  "View_dispatch get post req s =
     (case (case http_method req of GET \<Rightarrow> get | POST \<Rightarrow> post) of
        None \<Rightarrow> (HttpResponseNotAllowed, s)
      | Some h \<Rightarrow> h req s)"

text \<open>The three mixins check before the view's own dispatch runs.\<close>

definition LoginRequiredMixin_dispatch :: "site \<Rightarrow> handler \<Rightarrow> handler" where
  "LoginRequiredMixin_dispatch st super_dispatch req s =
     (if \<not> is_authenticated (user req) then (handle_no_permission False st req, s)
      else super_dispatch req s)"

definition PermissionRequiredMixin_dispatch :: "site \<Rightarrow> string list \<Rightarrow> handler \<Rightarrow> handler" where
  "PermissionRequiredMixin_dispatch st permission_required super_dispatch req s =
     (if \<not> has_perms (user req) permission_required then (handle_no_permission False st req, s)
      else super_dispatch req s)"

definition UserPassesTestMixin_dispatch :: "site \<Rightarrow> (request \<Rightarrow> bool) \<Rightarrow> handler \<Rightarrow> handler" where
  "UserPassesTestMixin_dispatch st test_func super_dispatch req s =
     (if \<not> test_func req then (handle_no_permission False st req, s)
      else super_dispatch req s)"

text \<open>
  The decorator \<open>user_passes_test(test_func)\<close>: the view when the test passes, else the
  redirect to the login URL, whoever the user is. The test returns \<open>None\<close> when it
  raises \<open>PermissionDenied\<close>.
\<close>

definition user_passes_test :: "site \<Rightarrow> (requester \<Rightarrow> bool option) \<Rightarrow> handler \<Rightarrow> handler" where
  "user_passes_test st test_func view_func req s =
     (case test_func (user req) of
        None \<Rightarrow> (PermissionDenied, s)
      | Some True \<Rightarrow> view_func req s
      | Some False \<Rightarrow> (redirect_to_login st (full_path req), s))"

text \<open>
  \<open>permission_required(perm, raise_exception)\<close> is \<open>user_passes_test\<close> of
  \<open>check_perms\<close>: true with the permission, \<open>PermissionDenied\<close> without it when
  \<open>raise_exception\<close> is set, false otherwise.
\<close>

definition check_perms :: "string \<Rightarrow> bool \<Rightarrow> requester \<Rightarrow> bool option" where
  "check_perms perm raise_exception u =
     (if has_perms u [perm] then Some True
      else if raise_exception then None
      else Some False)"

definition permission_required :: "site \<Rightarrow> string \<Rightarrow> bool \<Rightarrow> handler \<Rightarrow> handler" where
  "permission_required st perm raise_exception = user_passes_test st (check_perms perm raise_exception)"

text \<open>
  \<open>get_object\<close> of a detail view: the one row with the key of the URL; \<open>Http404\<close> when
  there is none.
\<close>

definition get_object :: "('a model_scheme) list \<Rightarrow> int \<Rightarrow> response + 'a model_scheme" where
  "get_object rows k =
     (case filter_pk k rows of
        [] \<Rightarrow> Inl Http404
      | [r] \<Rightarrow> Inr r
      | _ \<Rightarrow> Inl (ServerError ''MultipleObjectsReturned''))"

section \<open>shopapp/views.py\<close>

subsection \<open>ProductsListView\<close>

text \<open>
  \<open>queryset = Product.objects.filter(archived=False)\<close>, shown by the list view's \<open>get\<close>
  under \<open>object_list\<close> and the \<open>context_object_name\<close>.
\<close>

definition ProductsListView_queryset :: "state \<Rightarrow> product list" where
  "ProductsListView_queryset s = filter (\<lambda>p. archived p = False) (Product_objects s)"

definition ProductsListView_get :: handler where
  "ProductsListView_get req s =
     (let object_list = ProductsListView_queryset s
      in (Rendered ''shopapp/products-list.html''
            [(''object_list'', ProductRows object_list), (''products'', ProductRows object_list)], s))"

definition ProductsListView :: handler where
  "ProductsListView = View_dispatch (Some ProductsListView_get) None"

subsection \<open>ProductDeleteView\<close>

text \<open>
  \<open>success_url = reverse_lazy("shopapp:products_list")\<close>; \<open>form_valid\<close> marks the
  object archived, saves it and redirects. The view's \<open>post\<close> loads the object of the
  URL's key and calls \<open>form_valid\<close> (the confirmation form has no field, so it is
  valid), as the framework's \<open>BaseDeleteView.post\<close> does since it has \<open>form_valid\<close>;
  its \<open>get\<close> shows the confirmation page.
\<close>

definition ProductDeleteView_form_valid :: "site \<Rightarrow> product \<Rightarrow> state \<Rightarrow> response \<times> state" where
  "ProductDeleteView_form_valid st object s =
     (let success_url = reverse st ''shopapp:products_list'';
          object' = object\<lparr>archived := True\<rparr>;
          s' = save_product object' s
      in (HttpResponseRedirect success_url, s'))"

definition ProductDeleteView_post :: "site \<Rightarrow> int \<Rightarrow> handler" where
  "ProductDeleteView_post st k req s =
     (case get_object (Product_objects s) k of
        Inl err \<Rightarrow> (err, s)
      | Inr object \<Rightarrow> ProductDeleteView_form_valid st object s)"

definition ProductDeleteView_get :: "int \<Rightarrow> handler" where
  "ProductDeleteView_get k req s =
     (case get_object (Product_objects s) k of
        Inl err \<Rightarrow> (err, s)
      | Inr object \<Rightarrow>
          (Rendered ''shopapp/product_confirm_delete.html''
             [(''object'', ProductRows [object]), (''product'', ProductRows [object])], s))"

definition ProductDeleteView :: "site \<Rightarrow> int \<Rightarrow> handler" where
  "ProductDeleteView st k = View_dispatch (Some (ProductDeleteView_get k)) (Some (ProductDeleteView_post st k))"

subsection \<open>OrdersListView and OrderDetailView\<close>

definition OrdersListView_get :: handler where
  "OrdersListView_get req s =
     (let object_list = Order_objects s
      in (Rendered ''shopapp/order_list.html''
            [(''object_list'', OrderRows object_list), (''order_list'', OrderRows object_list)], s))"

definition OrdersListView :: "site \<Rightarrow> handler" where
  "OrdersListView st = LoginRequiredMixin_dispatch st (View_dispatch (Some OrdersListView_get) None)"

definition OrderDetailView_get :: "int \<Rightarrow> handler" where
  "OrderDetailView_get k req s =
     (case get_object (Order_objects s) k of
        Inl err \<Rightarrow> (err, s)
      | Inr object \<Rightarrow>
          (Rendered ''shopapp/order_detail.html''
             [(''object'', OrderRow object), (''order'', OrderRow object)], s))"

definition OrderDetailView :: "site \<Rightarrow> int \<Rightarrow> handler" where
  "OrderDetailView st k =
     PermissionRequiredMixin_dispatch st [''shopapp.view_order'']
       (View_dispatch (Some (OrderDetailView_get k)) None)"

subsection \<open>ProductsDataExportView\<close>

definition product_data :: "product \<Rightarrow> pyval" where
  "product_data product =
     PyDict [(''pk'', PyInt (pk product)),
             (''name'', PyStr (name product)),
             (''price'', PyDecimal (price product)),
             (''archived'', PyBool (archived product))]"

definition ProductsDataExportView_get :: handler where
  "ProductsDataExportView_get req s =
     (let products = order_by_pk (Product_objects s);
          products_data = map product_data products
      in (JsonResponse (PyDict [(''products'', PyList products_data)]), s))"

definition ProductsDataExportView :: handler where
  "ProductsDataExportView = View_dispatch (Some ProductsDataExportView_get) None"

subsection \<open>OrdersDataExportView\<close>

definition OrdersDataExportView_test_func :: "request \<Rightarrow> bool" where
  "OrdersDataExportView_test_func req = is_staff (user req)"

text \<open>
  The dictionary \<open>order_product_map\<close> is built by two nested loops; \<open>d[k].append(x)\<close>
  reads the key (a \<open>KeyError\<close>, here \<open>None\<close>, when it is missing) and extends its list.
\<close>

definition product_ref :: "product \<Rightarrow> pyval" where
  "product_ref product =
     PyDict [(''name'', PyStr (name product)),
             (''price'', PyStr (Decimal_str (price product)))]"

fun products_loop ::
  "state \<Rightarrow> order \<Rightarrow> product list \<Rightarrow> (int \<times> pyval list) list \<Rightarrow> (int \<times> pyval list) list option" where
  "products_loop s ord [] order_product_map = Some order_product_map"
| "products_loop s ord (product # rest) order_product_map =
     (if model_in product (order_products_all s ord)
      then (case map_of order_product_map (pk ord) of
              None \<Rightarrow> None
            | Some l \<Rightarrow>
                products_loop s ord rest (dict_set order_product_map (pk ord) (l @ [product_ref product])))
      else products_loop s ord rest order_product_map)"

fun orders_loop ::
  "state \<Rightarrow> order list \<Rightarrow> product list \<Rightarrow> (int \<times> pyval list) list \<Rightarrow> (int \<times> pyval list) list option" where
  "orders_loop s [] products order_product_map = Some order_product_map"
| "orders_loop s (ord # rest) products order_product_map =
     (case products_loop s ord products (dict_set order_product_map (pk ord) []) of
        None \<Rightarrow> None
      | Some m \<Rightarrow> orders_loop s rest products m)"

text \<open>The list comprehension that builds \<open>order_data\<close>.\<close>

fun order_data :: "(int \<times> pyval list) list \<Rightarrow> order list \<Rightarrow> pyval list option" where
  "order_data order_product_map [] = Some []"
| "order_data order_product_map (ord # rest) =
     (case map_of order_product_map (pk ord) of
        None \<Rightarrow> None
      | Some l \<Rightarrow>
          (case order_data order_product_map rest of
             None \<Rightarrow> None
           | Some ds \<Rightarrow>
               Some (PyDict [(''pk'', PyInt (pk ord)),
                             (''delivery_address'', PyStr (delivery_address ord)),
                             (''created_at'', PyStr (datetime_str (created_at ord))),
                             (''user_id'', PyInt (user_id ord)),
                             (''promocode'', PyStr (promocode ord)),
                             (''products'', PyList l)] # ds)))"

definition OrdersDataExportView_get :: handler where
  "OrdersDataExportView_get req s =
     (let orders = order_by_pk (Order_objects s);
          products = order_by_pk (Product_objects s)
      in case orders_loop s orders products [] of
           None \<Rightarrow> (ServerError ''KeyError'', s)
         | Some order_product_map \<Rightarrow>
             (case order_data order_product_map orders of
                None \<Rightarrow> (ServerError ''KeyError'', s)
              | Some data \<Rightarrow> (JsonResponse (PyDict [(''orders'', PyList data)]), s)))"

definition OrdersDataExportView :: "site \<Rightarrow> handler" where
  "OrdersDataExportView st =
     UserPassesTestMixin_dispatch st OrdersDataExportView_test_func
       (View_dispatch (Some OrdersDataExportView_get) None)"

section \<open>myauth/views.py\<close>

subsection \<open>Loading the module\<close>

text \<open>
  Python compiles a module as a whole before it runs any of it, and the compiler checks
  the indentation of every logical line against a stack of the enclosing indentations:
  a deeper line opens a block (allowed only after a line that ends a \<open>class\<close> or
  \<open>def\<close> header), an equal one continues, and a shallower one must return to one of
  the enclosing indentations. Each failure is an \<open>IndentationError\<close>: "unindent does
  not match any outer indentation level" and "unexpected indent" at the line given,
  "expected an indented block" after the header given.
\<close>

datatype indentation_error =
    Unindent_mismatch nat
  | Unexpected_indent nat
  | Expected_indented_block nat

text \<open>
  Leaving blocks: the enclosing indentations are popped while the line is shallower
  than the current one and one is left.
\<close>

fun pop_to :: "nat \<Rightarrow> nat \<Rightarrow> nat list \<Rightarrow> nat \<times> nat list" where
  "pop_to c cur [] = (cur, [])"
| "pop_to c cur (t # ts) = (if c < cur then pop_to c t ts else (cur, t # ts))"

text \<open>
  The check of the logical lines, each given by its line number, its column and
  whether it is a header that opens a block. \<open>cur\<close> and \<open>outer\<close> are the stack of
  indentations, \<open>hdr\<close> the line of the header the previous line was, if it was one.
\<close>

fun check_lines ::
  "nat \<Rightarrow> nat list \<Rightarrow> nat option \<Rightarrow> (nat \<times> nat \<times> bool) list \<Rightarrow> indentation_error option" where
  "check_lines cur outer hdr [] =
     (case hdr of Some h \<Rightarrow> Some (Expected_indented_block h) | None \<Rightarrow> None)"
| "check_lines cur outer hdr ((l, c, opens) # rest) =
     (if c = cur then
        (case hdr of
           Some h \<Rightarrow> Some (Expected_indented_block h)
         | None \<Rightarrow> check_lines cur outer (if opens then Some l else None) rest)
      else if c > cur then
        (case hdr of
           None \<Rightarrow> Some (Unexpected_indent l)
         | Some h \<Rightarrow> check_lines c (cur # outer) (if opens then Some l else None) rest)
      else
        (case pop_to c cur outer of
           (t, ts) \<Rightarrow>
             if t \<noteq> c then Some (Unindent_mismatch l)
             else (case hdr of
                     Some h \<Rightarrow> Some (Expected_indented_block h)
                   | None \<Rightarrow> check_lines t ts (if opens then Some l else None) rest)))"

text \<open>
  The logical lines of \<open>myauth/views.py\<close>: the imports (lines 1 to 9), the three class
  views (12 to 63) and the four function views with their decorators (66 to 134). A
  docstring is one logical line at the column of its opening quotes, and the call that
  spans lines 48 to 52 is one at line 48. The docstring of \<open>get_session_view\<close> opens
  at column 5 (line 121); the two statements after it are at column 4.
\<close>

definition myauth_views_lines :: "(nat \<times> nat \<times> bool) list" where
  "myauth_views_lines =
     [(1, 0, False), (2, 0, False), (3, 0, False), (4, 0, False), (5, 0, False),
      (6, 0, False), (7, 0, False), (9, 0, False),
      (12, 0, True), (13, 4, False), (18, 4, False),
      (21, 0, True), (22, 4, False), (28, 4, False), (29, 4, False), (30, 4, False),
      (32, 4, True), (33, 8, False), (44, 8, False), (45, 8, False), (46, 8, False),
      (47, 8, False), (48, 8, False), (53, 8, False), (54, 8, False),
      (57, 0, True), (58, 4, False), (63, 4, False),
      (66, 0, False), (67, 0, True), (68, 4, False), (80, 4, False), (81, 4, False),
      (82, 4, False),
      (85, 0, True), (86, 4, False), (97, 4, False), (98, 4, False),
      (101, 0, False), (102, 0, True), (103, 4, False), (115, 4, False), (116, 4, False),
      (119, 0, False), (120, 0, True), (121, 5, False), (133, 4, False), (134, 4, False)]"

text \<open>
  \<open>import myauth.views\<close>: the error the compiler raises, or \<open>None\<close> when the module
  loads. A view of the module is there to be called only when the module has loaded;
  otherwise the error of the import is what the program raises.
\<close>

definition import_myauth_views :: "indentation_error option" where
  "import_myauth_views = check_lines 0 [] None myauth_views_lines"

definition from_myauth_views ::
  "handler \<Rightarrow> request \<Rightarrow> state \<Rightarrow> indentation_error + response \<times> state" where
  "from_myauth_views view_func req s =
     (case import_myauth_views of
        Some err \<Rightarrow> Inl err
      | None \<Rightarrow> Inr (view_func req s))"

subsection \<open>The cookie and session views\<close>

text \<open>
  \<open>response.set_cookie(key, value, max_age)\<close> on a plain response: the cookie replaces
  one of the same name.
\<close>

definition set_cookie :: "string \<Rightarrow> string \<Rightarrow> nat option \<Rightarrow> response \<Rightarrow> response" where
  "set_cookie k v age resp =
     (case resp of
        HttpResponse body cs \<Rightarrow>
          HttpResponse body (filter (\<lambda>c. cookie_key c \<noteq> k) cs @
             [\<lparr>cookie_key = k, cookie_value = v, max_age = age\<rparr>])
      | _ \<Rightarrow> resp)"

text \<open>
  The bodies of the three functions as the module writes them, and the views as the
  program has them: the decorated function, from the module.
\<close>

definition set_cookie_view_body :: handler where
  "set_cookie_view_body req s =
     (let response = HttpResponse ''Cookie set'' [];
          response = set_cookie ''fizz'' ''buzz'' (Some 3600) response
      in (response, s))"

definition set_cookie_view ::
  "site \<Rightarrow> request \<Rightarrow> state \<Rightarrow> indentation_error + response \<times> state" where
  "set_cookie_view st =
     from_myauth_views (user_passes_test st (\<lambda>u. Some (is_superuser u)) set_cookie_view_body)"

definition get_cookie_view_body :: handler where
  "get_cookie_view_body req s =
     (let v = dict_get (COOKIES req) ''fizz'' ''default value''
      in (HttpResponse (''Cookie value: '' @ repr_str v) [], s))"

definition get_cookie_view :: "request \<Rightarrow> state \<Rightarrow> indentation_error + response \<times> state" where
  "get_cookie_view = from_myauth_views get_cookie_view_body"

definition set_session_view_body :: handler where
  "set_session_view_body req s =
     (HttpResponse ''Session set!'' [], s\<lparr>session := dict_set (session s) ''foobar'' ''spameggs''\<rparr>)"

definition set_session_view ::
  "site \<Rightarrow> request \<Rightarrow> state \<Rightarrow> indentation_error + response \<times> state" where
  "set_session_view st =
     from_myauth_views (permission_required st ''myauth.view_profile'' True set_session_view_body)"

section \<open>Vocabulary of the statements\<close>

text \<open>
  The value of a key of the context a response was rendered with.
\<close>

definition context_get :: "response \<Rightarrow> string \<Rightarrow> ctxval option" where
  "context_get resp k = (case resp of Rendered t ctx \<Rightarrow> map_of ctx k | _ \<Rightarrow> None)"

text \<open>
  The members \<open>price\<close> of the entries of an export, and whether a JSON value is
  a number.
\<close>

fun json_is_number :: "json \<Rightarrow> bool" where
  "json_is_number (JNumber k) = True"
| "json_is_number j = False"

definition export_prices :: "response \<Rightarrow> json list" where
  "export_prices resp =
     (case resp of
        JsonBody (JObject [(k, JArray es)]) \<Rightarrow>
          List.map_filter (\<lambda>e. case e of JObject kvs \<Rightarrow> map_of kvs ''price'' | _ \<Rightarrow> None) es
      | _ \<Rightarrow> [])"

text \<open>
  The JSON of an exported product and of a product inside an exported order, and, as
  the specification words it, the JSON of an exported order: its own fields and the
  products joined to it, in the order of the product table by ascending key.
\<close>

definition product_json :: "product \<Rightarrow> json" where
  "product_json p =
     JObject [(''pk'', JNumber (pk p)), (''name'', JString (name p)),
              (''price'', JString (Decimal_str (price p))), (''archived'', JBool (archived p))]"

definition spec_product_ref :: "product \<Rightarrow> json" where
  "spec_product_ref p = JObject [(''name'', JString (name p)), (''price'', JString (Decimal_str (price p)))]"

definition spec_order_entry :: "state \<Rightarrow> order \<Rightarrow> json" where
  "spec_order_entry s ord =
     JObject [(''pk'', JNumber (pk ord)),
              (''delivery_address'', JString (delivery_address ord)),
              (''created_at'', JString (datetime_str (created_at ord))),
              (''user_id'', JNumber (user_id ord)),
              (''promocode'', JString (promocode ord)),
              (''products'', JArray (map spec_product_ref
                 (filter (\<lambda>p. (pk ord, pk p) \<in> set (Order_products s)) (order_by_pk (Product_objects s)))))]"

text \<open>
  The value the two loops of the order export leave under an order's key, and the
  dictionary built for an order from it.
\<close>

definition linked_refs :: "state \<Rightarrow> product list \<Rightarrow> int \<Rightarrow> pyval list" where
  "linked_refs s ps k =
     map product_ref
       (filter (\<lambda>p. model_in p (filter (\<lambda>q. (k, pk q) \<in> set (Order_products s)) (Product_objects s))) ps)"

definition order_row :: "order \<Rightarrow> pyval list \<Rightarrow> pyval" where
  "order_row ord l =
     PyDict [(''pk'', PyInt (pk ord)),
             (''delivery_address'', PyStr (delivery_address ord)),
             (''created_at'', PyStr (datetime_str (created_at ord))),
             (''user_id'', PyInt (user_id ord)),
             (''promocode'', PyStr (promocode ord)),
             (''products'', PyList l)]"

subsection \<open>A sample shop\<close>

text \<open>
  Two products (the chair archived, stored before the table), one order of the table,
  and requests by an anonymous visitor, a customer, a staff member and a superuser.
\<close>

definition demo_site :: site where
  "demo_site = \<lparr>LOGIN_URL = ''/accounts/login/'',
                 reverse = (\<lambda>n. if n = ''shopapp:products_list'' then ''/shop/products/'' else ''/'')\<rparr>"

definition demo_table :: product where
  "demo_table = \<lparr>pk = 1, name = ''Table'', price = \<lparr>dsign = False, dint = 12345, dexp = - 2\<rparr>,
                  description = ''A good table'', discount = 10, archived = False, preview = None\<rparr>"

definition demo_chair :: product where
  "demo_chair = \<lparr>pk = 2, name = ''Chair'', price = \<lparr>dsign = False, dint = 4500, dexp = - 2\<rparr>,
                  description = '''', discount = 0, archived = True, preview = None\<rparr>"

definition demo_order :: order where
  "demo_order = \<lparr>pk = 1, delivery_address = ''Main St 1'',
                  created_at = \<lparr>year = 2024, month = 1, day = 2, hour = 3, minute = 4, second = 5,
                                 microsecond = 0, utcoffset = Some 0\<rparr>,
                  user_id = 7, promocode = ''SALE''\<rparr>"

definition demo_state :: state where
  "demo_state = \<lparr>Product_objects = [demo_chair, demo_table], Order_objects = [demo_order],
                  Order_products = [(1, 1)], session = []\<rparr>"

definition demo_request :: "http_method \<Rightarrow> requester \<Rightarrow> request" where
  "demo_request m u = \<lparr>http_method = m, user = u, COOKIES = [], full_path = ''/shop/orders/''\<rparr>"

definition demo_cookie_request :: "string \<Rightarrow> request" where
  "demo_cookie_request v =
     \<lparr>http_method = GET, user = AnonymousUser, COOKIES = [(''fizz'', v)], full_path = ''/cookie/get/''\<rparr>"

definition demo_staff :: requester where
  "demo_staff = User \<lparr>active = True, staff = True, superuser = False, perms = []\<rparr>"

definition demo_admin :: requester where
  "demo_admin = User \<lparr>active = True, staff = True, superuser = True, perms = []\<rparr>"

definition demo_customer :: requester where
  "demo_customer = User \<lparr>active = True, staff = False, superuser = False, perms = []\<rparr>"

section \<open>Lemmas\<close>

subsection \<open>Rows and keys\<close>

lemma filter_pk_unique:
  "distinct (map pk rows) \<Longrightarrow> r \<in> set rows \<Longrightarrow> filter_pk (pk r) rows = [r]"
  unfolding filter_pk_def
proof (induction rows)
  case Nil then show ?case by simp
next
  case (Cons a rows)
  show ?case
  proof (cases "a = r")
    case True
    have "pk r \<notin> pk ` set rows"
      using Cons.prems True by simp
    then have "\<And>x. x \<in> set rows \<Longrightarrow> pk x \<noteq> pk r"
      by (metis imageI)
    then have "filter (\<lambda>x. pk x = pk r) rows = []"
      by (simp add: filter_empty_conv)
    then show ?thesis using True by simp
  next
    case False
    then have "r \<in> set rows" using Cons.prems by simp
    moreover have "pk a \<noteq> pk r" using Cons.prems \<open>r \<in> set rows\<close> by auto
    ultimately show ?thesis using Cons by simp
  qed
qed

lemma get_object_unique:
  "distinct (map pk rows) \<Longrightarrow> r \<in> set rows \<Longrightarrow> get_object rows (pk r) = Inr r"
  by (simp add: get_object_def filter_pk_unique)

lemma pk_inj_rows:
  "distinct (map pk rows) \<Longrightarrow> r \<in> set rows \<Longrightarrow> q \<in> set rows \<Longrightarrow> pk q = pk r \<Longrightarrow> q = r"
  by (auto simp: distinct_map dest: inj_onD)

lemma map_replace_distinct:
  assumes d: "distinct (map pk rows)" and m: "p \<in> set rows" and k: "pk p' = pk p"
  shows "distinct (map pk (map (\<lambda>q. if pk q = pk p then p' else q) rows))"
    and "p' \<in> set (map (\<lambda>q. if pk q = pk p then p' else q) rows)"
proof -
  have "map pk (map (\<lambda>q. if pk q = pk p then p' else q) rows) = map pk rows"
    using k by (induction rows) auto
  then show "distinct (map pk (map (\<lambda>q. if pk q = pk p then p' else q) rows))"
    using d by (simp only:)
  show "p' \<in> set (map (\<lambda>q. if pk q = pk p then p' else q) rows)"
    using m by (auto simp: image_iff intro!: bexI[of _ p])
qed

lemma set_order_by_pk: "set (order_by_pk rows) = set rows"
  by (simp add: order_by_pk_def)

lemma order_by_pk_sorted: "sorted (map pk (order_by_pk rows))"
  by (simp add: order_by_pk_def)

lemma order_by_pk_mset: "mset (order_by_pk rows) = mset rows"
  by (simp add: order_by_pk_def)

subsection \<open>Archiving a product\<close>

lemma save_product_existing:
  "p \<in> set (Product_objects s) \<Longrightarrow> pk p' = pk p \<Longrightarrow>
   save_product p' s = s\<lparr>Product_objects := map (\<lambda>q. if pk q = pk p then p' else q) (Product_objects s)\<rparr>"
  by (auto simp: save_product_def list_ex_iff)

lemma delete_post_existing:
  assumes d: "distinct (map pk (Product_objects s))" and m: "p \<in> set (Product_objects s)"
  shows "ProductDeleteView st (pk p) (req\<lparr>http_method := POST\<rparr>) s =
         (HttpResponseRedirect (reverse st ''shopapp:products_list''),
          s\<lparr>Product_objects := map (\<lambda>q. if pk q = pk p then p\<lparr>archived := True\<rparr> else q) (Product_objects s)\<rparr>)"
proof -
  have g: "get_object (Product_objects s) (pk p) = Inr p"
    using d m by (rule get_object_unique)
  have sv: "save_product (p\<lparr>archived := True\<rparr>) s =
      s\<lparr>Product_objects := map (\<lambda>q. if pk q = pk p then p\<lparr>archived := True\<rparr> else q) (Product_objects s)\<rparr>"
    using m by (rule save_product_existing) simp
  show ?thesis
    by (simp add: ProductDeleteView_def View_dispatch_def ProductDeleteView_post_def g
        ProductDeleteView_form_valid_def Let_def sv)
qed

subsection \<open>The loops of the order export\<close>

lemma map_of_dict_set: "map_of (dict_set m k v) = (map_of m)(k \<mapsto> v)"
  by (induction m k v rule: dict_set.induct) auto

lemma linked_refs_Nil: "linked_refs s [] k = []"
  by (simp add: linked_refs_def)

lemma linked_refs_Cons:
  "linked_refs s (p # ps) (pk ord) =
     (if model_in p (order_products_all s ord) then product_ref p # linked_refs s ps (pk ord)
      else linked_refs s ps (pk ord))"
  by (simp add: linked_refs_def order_products_all_def)

lemma products_loop_result:
  "map_of m (pk ord) = Some l \<Longrightarrow>
   \<exists>m'. products_loop s ord ps m = Some m' \<and> map_of m' = (map_of m)(pk ord \<mapsto> l @ linked_refs s ps (pk ord))"
proof (induction ps arbitrary: m l)
  case Nil
  then show ?case by (auto simp: linked_refs_Nil)
next
  case (Cons p ps)
  show ?case
  proof (cases "model_in p (order_products_all s ord)")
    case True
    let ?m1 = "dict_set m (pk ord) (l @ [product_ref p])"
    have "map_of ?m1 (pk ord) = Some (l @ [product_ref p])"
      by (simp add: map_of_dict_set)
    from Cons.IH[OF this] obtain m' where
      r: "products_loop s ord ps ?m1 = Some m'" and
      e: "map_of m' = (map_of ?m1)(pk ord \<mapsto> (l @ [product_ref p]) @ linked_refs s ps (pk ord))"
      by blast
    have "products_loop s ord (p # ps) m = Some m'"
      using True Cons.prems r by simp
    moreover have "map_of m' = (map_of m)(pk ord \<mapsto> l @ linked_refs s (p # ps) (pk ord))"
      using e True by (simp add: map_of_dict_set linked_refs_Cons)
    ultimately show ?thesis by blast
  next
    case False
    from Cons.IH[OF Cons.prems] obtain m' where
      r: "products_loop s ord ps m = Some m'" and
      e: "map_of m' = (map_of m)(pk ord \<mapsto> l @ linked_refs s ps (pk ord))"
      by blast
    have "products_loop s ord (p # ps) m = Some m'" using False r by simp
    moreover have "map_of m' = (map_of m)(pk ord \<mapsto> l @ linked_refs s (p # ps) (pk ord))"
      using e False by (simp add: linked_refs_Cons)
    ultimately show ?thesis by blast
  qed
qed

lemma orders_loop_result:
  "\<exists>m'. orders_loop s os ps m = Some m' \<and>
        map_of m' = (\<lambda>k. if k \<in> pk ` set os then Some (linked_refs s ps k) else map_of m k)"
proof (induction os arbitrary: m)
  case Nil
  then show ?case by simp
next
  case (Cons ord os)
  let ?m1 = "dict_set m (pk ord) []"
  have "map_of ?m1 (pk ord) = Some []" by (simp add: map_of_dict_set)
  from products_loop_result[OF this, of s ps] obtain m2 where
    r2: "products_loop s ord ps ?m1 = Some m2" and
    e2: "map_of m2 = (map_of ?m1)(pk ord \<mapsto> [] @ linked_refs s ps (pk ord))"
    by blast
  from Cons.IH[of m2] obtain m' where
    r: "orders_loop s os ps m2 = Some m'" and
    e: "map_of m' = (\<lambda>k. if k \<in> pk ` set os then Some (linked_refs s ps k) else map_of m2 k)"
    by blast
  have "orders_loop s (ord # os) ps m = Some m'" using r2 r by simp
  moreover have "map_of m' = (\<lambda>k. if k \<in> pk ` set (ord # os) then Some (linked_refs s ps k) else map_of m k)"
    unfolding e e2 by (rule ext) (simp add: map_of_dict_set)
  ultimately show ?case by blast
qed

lemma order_data_result:
  "(\<And>ord. ord \<in> set os \<Longrightarrow> map_of m (pk ord) = Some (F (pk ord))) \<Longrightarrow>
   order_data m os = Some (map (\<lambda>ord. order_row ord (F (pk ord))) os)"
  by (induction os) (auto simp: order_row_def)

lemma model_in_table:
  "p \<in> set (Product_objects s) \<Longrightarrow>
   model_in p (filter (\<lambda>q. (k, pk q) \<in> set (Order_products s)) (Product_objects s)) =
   ((k, pk p) \<in> set (Order_products s))"
  by (auto simp: model_in_def list_ex_iff)

lemma linked_refs_table:
  "set ps \<subseteq> set (Product_objects s) \<Longrightarrow>
   linked_refs s ps k = map product_ref (filter (\<lambda>p. (k, pk p) \<in> set (Order_products s)) ps)"
proof -
  assume sub: "set ps \<subseteq> set (Product_objects s)"
  have "filter (\<lambda>p. model_in p (filter (\<lambda>q. (k, pk q) \<in> set (Order_products s)) (Product_objects s))) ps
      = filter (\<lambda>p. (k, pk p) \<in> set (Order_products s)) ps"
    by (rule filter_cong) (use sub in \<open>auto simp: model_in_table\<close>)
  then show ?thesis by (simp add: linked_refs_def)
qed

subsection \<open>Encoding\<close>

lemma encode_product_ref: "DjangoJSONEncoder (product_ref p) = spec_product_ref p"
  by (simp add: product_ref_def spec_product_ref_def)

lemma encode_product_data: "DjangoJSONEncoder (product_data p) = product_json p"
  by (simp add: product_data_def product_json_def)

lemma encode_order_row:
  "DjangoJSONEncoder (order_row ord (linked_refs s (order_by_pk (Product_objects s)) (pk ord))) =
   spec_order_entry s ord"
  by (simp add: order_row_def spec_order_entry_def linked_refs_table set_order_by_pk
      encode_product_ref comp_def)

lemma orders_export_get:
  "OrdersDataExportView_get req s =
     (JsonBody (JObject [(''orders'', JArray (map (spec_order_entry s) (order_by_pk (Order_objects s))))]), s)"
proof -
  let ?os = "order_by_pk (Order_objects s)" and ?ps = "order_by_pk (Product_objects s)"
  obtain m where
    r: "orders_loop s ?os ?ps [] = Some m" and
    e: "map_of m = (\<lambda>k. if k \<in> pk ` set ?os then Some (linked_refs s ?ps k) else map_of [] k)"
    using orders_loop_result[of s ?os ?ps "[]"] by blast
  have "order_data m ?os = Some (map (\<lambda>ord. order_row ord (linked_refs s ?ps (pk ord))) ?os)"
    by (rule order_data_result) (simp add: e)
  then show ?thesis
    by (simp add: OrdersDataExportView_get_def Let_def r JsonResponse_def encode_order_row comp_def)
qed

lemma products_export_get:
  "ProductsDataExportView_get req s =
     (JsonBody (JObject [(''products'', JArray (map product_json (order_by_pk (Product_objects s))))]), s)"
  by (simp add: ProductsDataExportView_get_def Let_def JsonResponse_def encode_product_data comp_def)

subsection \<open>The import of myauth/views.py\<close>

lemma import_myauth_views_raises: "import_myauth_views = Some (Unindent_mismatch 133)"
  by (simp add: import_myauth_views_def myauth_views_lines_def)

text \<open>
  With the docstring of line 121 at column 4, as every other docstring of the module is,
  the check finds nothing: the one misplaced line is what stops the import.
\<close>

lemma import_without_slip:
  "myauth_views_lines ! 45 = (121, 5, False)
   \<and> check_lines 0 [] None (myauth_views_lines[45 := (121, 4, False)]) = None"
  by (simp add: myauth_views_lines_def)

lemma from_myauth_views_raises: "from_myauth_views view_func req s = Inl (Unindent_mismatch 133)"
  by (simp add: from_myauth_views_def import_myauth_views_raises)

subsection \<open>The permission gate of the order detail view\<close>

lemma order_detail_forbidden:
  "is_authenticated (user req) \<Longrightarrow> \<not> has_perm (user req) ''shopapp.view_order'' \<Longrightarrow>
   OrderDetailView st k req s = (PermissionDenied, s)"
  by (simp add: OrderDetailView_def PermissionRequiredMixin_dispatch_def has_perms_def
      handle_no_permission_def)

subsection \<open>The sample shop\<close>

lemma quote_demo: "quote ''/shop/orders/'' = ''/shop/orders/''"
  by (simp add: quote_def quote_char_def)

lemma demo_price_table: "Decimal_str \<lparr>dsign = False, dint = 12345, dexp = - 2\<rparr> = ''123.45''"
  by (simp add: Decimal_str_def str_nat.simps digit_char_def Let_def)

lemma demo_price_chair: "Decimal_str \<lparr>dsign = False, dint = 4500, dexp = - 2\<rparr> = ''45.00''"
  by (simp add: Decimal_str_def str_nat.simps digit_char_def Let_def)

lemma demo_created_at: "datetime_str (created_at demo_order) = ''2024-01-02 03:04:05+00:00''"
  by (simp add: demo_order_def datetime_str_def format_offset_def fmt_0d_def str_nat.simps
      digit_char_def Let_def)

section \<open>The claims\<close>

subsection \<open>C1: product export\<close>

text \<open>
  C1, as the code has it. For every state, a GET of the product export returns the JSON
  object with the one member \<open>products\<close>: one entry per product, archived or not, in
  ascending order of the primary key, each entry \<open>{pk, name, price, archived}\<close>. The
  view hands the price to the encoder as the \<open>Decimal\<close> it is, and the encoder writes
  it as the JSON string \<open>str(price)\<close>.
\<close>

theorem products_export_json:
  "ProductsDataExportView (req\<lparr>http_method := GET\<rparr>) s =
     (JsonBody (JObject [(''products'', JArray (map product_json (order_by_pk (Product_objects s))))]), s)
   \<and> sorted (map pk (order_by_pk (Product_objects s)))
   \<and> mset (order_by_pk (Product_objects s)) = mset (Product_objects s)"
  by (simp add: ProductsDataExportView_def View_dispatch_def products_export_get
      order_by_pk_sorted order_by_pk_mset)

text \<open>
  C1 as stated says the price is a JSON number. In the sample shop the exported prices
  are the strings \<open>"123.45"\<close> and \<open>"45.00"\<close>, as the repository's test of the
  export expects.
\<close>

theorem products_export_price_counterexample:
  "export_prices (fst (ProductsDataExportView (demo_request GET AnonymousUser) demo_state)) =
     [JString ''123.45'', JString ''45.00'']
   \<and> \<not> list_all json_is_number
        (export_prices (fst (ProductsDataExportView (demo_request GET AnonymousUser) demo_state)))"
proof -
  have "ProductsDataExportView (demo_request GET AnonymousUser) demo_state =
          (JsonBody (JObject [(''products'',
             JArray [JObject [(''pk'', JNumber 1), (''name'', JString ''Table''),
                              (''price'', JString ''123.45''), (''archived'', JBool False)],
                     JObject [(''pk'', JNumber 2), (''name'', JString ''Chair''),
                              (''price'', JString ''45.00''), (''archived'', JBool True)]])]),
           demo_state)"
    by (simp add: ProductsDataExportView_def View_dispatch_def ProductsDataExportView_get_def
        JsonResponse_def product_data_def order_by_pk_def demo_request_def demo_state_def
        demo_table_def demo_chair_def demo_price_table demo_price_chair Let_def)
  then show ?thesis
    by (simp add: export_prices_def List.map_filter_simps)
qed

subsection \<open>C2: a missing permission\<close>

text \<open>
  C2, at an authenticated customer who holds no permission. The order detail view
  answers \<open>PermissionDenied\<close> (status 403) and leaves the state as it was. The
  session-set view is never reached: the import of \<open>myauth/views.py\<close> raises the
  \<open>IndentationError\<close> of line 133.
\<close>

theorem session_view_raises_at_import:
  "is_authenticated (user (demo_request GET demo_customer))
   \<and> \<not> has_perm (user (demo_request GET demo_customer)) ''shopapp.view_order''
   \<and> \<not> has_perm (user (demo_request GET demo_customer)) ''myauth.view_profile''
   \<and> OrderDetailView demo_site 1 (demo_request GET demo_customer) demo_state =
        (PermissionDenied, demo_state)
   \<and> status_code PermissionDenied = 403
   \<and> set_session_view demo_site (demo_request GET demo_customer) demo_state =
        Inl (Unindent_mismatch 133)"
proof -
  have a: "is_authenticated (user (demo_request GET demo_customer))"
    by (simp add: demo_request_def demo_customer_def)
  have b: "\<not> has_perm (user (demo_request GET demo_customer)) ''shopapp.view_order''"
    by (simp add: demo_request_def demo_customer_def)
  have c: "\<not> has_perm (user (demo_request GET demo_customer)) ''myauth.view_profile''"
    by (simp add: demo_request_def demo_customer_def)
  have d: "OrderDetailView demo_site 1 (demo_request GET demo_customer) demo_state =
        (PermissionDenied, demo_state)"
    using a b by (rule order_detail_forbidden)
  have e: "set_session_view demo_site (demo_request GET demo_customer) demo_state =
        Inl (Unindent_mismatch 133)"
    by (simp add: set_session_view_def from_myauth_views_raises)
  show ?thesis
    using a b c d e by simp
qed

subsection \<open>C3: order export\<close>

text \<open>
  C3. For a staff requester and every state, a GET of the order export returns the
  orders in ascending order of the primary key, each as \<open>{pk, delivery_address,
  created_at, user_id, promocode, products}\<close> with \<open>created_at\<close> and \<open>promocode\<close> as
  strings, where \<open>products\<close> lists the products joined to the order, each as
  \<open>{name, price}\<close> with the price as a string, in the order of the product table by
  ascending key.
\<close>

theorem orders_export_json:
  assumes "is_staff (user req)"
  shows "OrdersDataExportView st (req\<lparr>http_method := GET\<rparr>) s =
     (JsonBody (JObject [(''orders'', JArray (map (spec_order_entry s) (order_by_pk (Order_objects s))))]), s)
   \<and> sorted (map pk (order_by_pk (Order_objects s)))
   \<and> mset (order_by_pk (Order_objects s)) = mset (Order_objects s)
   \<and> sorted (map pk (order_by_pk (Product_objects s)))
   \<and> mset (order_by_pk (Product_objects s)) = mset (Product_objects s)"
  using assms
  by (simp add: OrdersDataExportView_def UserPassesTestMixin_dispatch_def
      OrdersDataExportView_test_func_def View_dispatch_def orders_export_get
      order_by_pk_sorted order_by_pk_mset)

theorem orders_export_json_witness:
  "is_staff (user (demo_request POST demo_staff))
   \<and> OrdersDataExportView demo_site (demo_request POST demo_staff\<lparr>http_method := GET\<rparr>) demo_state =
       (JsonBody (JObject [(''orders'',
          JArray [JObject [(''pk'', JNumber 1),
                           (''delivery_address'', JString ''Main St 1''),
                           (''created_at'', JString ''2024-01-02 03:04:05+00:00''),
                           (''user_id'', JNumber 7),
                           (''promocode'', JString ''SALE''),
                           (''products'', JArray [JObject [(''name'', JString ''Table''),
                                                           (''price'', JString ''123.45'')]])]])]),
        demo_state)"
proof -
  have a: "is_staff (user (demo_request POST demo_staff))"
    by (simp add: demo_request_def demo_staff_def)
  have o: "order_by_pk (Order_objects demo_state) = [demo_order]"
    by (simp add: order_by_pk_def demo_state_def)
  have p: "order_by_pk (Product_objects demo_state) = [demo_table, demo_chair]"
    by (simp add: order_by_pk_def demo_state_def demo_table_def demo_chair_def)
  have e: "spec_order_entry demo_state demo_order =
       JObject [(''pk'', JNumber 1),
                (''delivery_address'', JString ''Main St 1''),
                (''created_at'', JString ''2024-01-02 03:04:05+00:00''),
                (''user_id'', JNumber 7),
                (''promocode'', JString ''SALE''),
                (''products'', JArray [JObject [(''name'', JString ''Table''),
                                                (''price'', JString ''123.45'')]])]"
    unfolding spec_order_entry_def p demo_created_at
    by (simp add: demo_state_def demo_order_def demo_table_def demo_chair_def spec_product_ref_def
        demo_price_table)
  show ?thesis
    using orders_export_json [OF a, of demo_site demo_state] a
    by (simp add: o e)
qed

subsection \<open>C4: the product list shows the products that are not archived\<close>

text \<open>
  C4. For every state, the context of a GET of the product list has under
  \<open>products\<close> exactly the products with \<open>archived\<close> false: each of them as often as
  the table has it, and no archived one.
\<close>

theorem products_list_only_active:
  "\<exists>qs. context_get (fst (ProductsListView (req\<lparr>http_method := GET\<rparr>) s)) ''products'' = Some (ProductRows qs)
      \<and> (\<forall>p. (p \<in> set qs) = (p \<in> set (Product_objects s) \<and> archived p = False))
      \<and> (\<forall>p. count_list qs p = (if archived p then 0 else count_list (Product_objects s) p))
      \<and> snd (ProductsListView (req\<lparr>http_method := GET\<rparr>) s) = s"
proof -
  let ?qs = "ProductsListView_queryset s"
  have r: "ProductsListView (req\<lparr>http_method := GET\<rparr>) s =
      (Rendered ''shopapp/products-list.html''
         [(''object_list'', ProductRows ?qs), (''products'', ProductRows ?qs)], s)"
    by (simp add: ProductsListView_def View_dispatch_def ProductsListView_get_def Let_def)
  have m: "\<forall>p. (p \<in> set ?qs) = (p \<in> set (Product_objects s) \<and> archived p = False)"
    by (auto simp: ProductsListView_queryset_def)
  have c: "count_list (filter P xs) p = (if P p then count_list xs p else 0)" for P and xs :: "product list" and p
    by (induction xs) auto
  have c': "\<forall>p. count_list ?qs p = (if archived p then 0 else count_list (Product_objects s) p)"
    by (simp add: ProductsListView_queryset_def c)
  show ?thesis
    unfolding r using m c' by (simp add: context_get_def)
qed

subsection \<open>C5: deleting archives\<close>

text \<open>
  C5. For a product \<open>p\<close> of a table with unique keys, the POST of the delete view
  redirects to the product list and keeps the row: afterwards the key of \<open>p\<close> finds
  \<open>p\<close> with \<open>archived\<close> true and every other field as before, no other row has
  changed and the table has as many rows as before.
\<close>

theorem delete_keeps_row_archived:
  assumes d: "distinct (map pk (Product_objects s))" and m: "p \<in> set (Product_objects s)"
  shows "fst (ProductDeleteView st (pk p) (req\<lparr>http_method := POST\<rparr>) s) =
           HttpResponseRedirect (reverse st ''shopapp:products_list'')
       \<and> get_object (Product_objects (snd (ProductDeleteView st (pk p) (req\<lparr>http_method := POST\<rparr>) s))) (pk p) =
           Inr (p\<lparr>archived := True\<rparr>)
       \<and> snd (ProductDeleteView st (pk p) (req\<lparr>http_method := POST\<rparr>) s) =
           s\<lparr>Product_objects := map (\<lambda>q. if pk q = pk p then p\<lparr>archived := True\<rparr> else q) (Product_objects s)\<rparr>
       \<and> length (Product_objects (snd (ProductDeleteView st (pk p) (req\<lparr>http_method := POST\<rparr>) s))) =
           length (Product_objects s)"
proof -
  let ?rows = "map (\<lambda>q. if pk q = pk p then p\<lparr>archived := True\<rparr> else q) (Product_objects s)"
  have e: "ProductDeleteView st (pk p) (req\<lparr>http_method := POST\<rparr>) s =
         (HttpResponseRedirect (reverse st ''shopapp:products_list''), s\<lparr>Product_objects := ?rows\<rparr>)"
    using d m by (rule delete_post_existing)
  have k: "pk (p\<lparr>archived := True\<rparr>) = pk p" by simp
  have "get_object ?rows (pk (p\<lparr>archived := True\<rparr>)) = Inr (p\<lparr>archived := True\<rparr>)"
    using map_replace_distinct[OF d m k] by (rule get_object_unique)
  then have g: "get_object ?rows (pk p) = Inr (p\<lparr>archived := True\<rparr>)" by simp
  show ?thesis unfolding e using g by simp
qed

theorem delete_keeps_row_archived_witness:
  "distinct (map pk (Product_objects demo_state))
   \<and> demo_table \<in> set (Product_objects demo_state)
   \<and> fst (ProductDeleteView demo_site 1 (demo_request GET AnonymousUser\<lparr>http_method := POST\<rparr>) demo_state) =
       HttpResponseRedirect ''/shop/products/''
   \<and> get_object (Product_objects
        (snd (ProductDeleteView demo_site 1 (demo_request GET AnonymousUser\<lparr>http_method := POST\<rparr>) demo_state))) 1 =
       Inr (demo_table\<lparr>archived := True\<rparr>)
   \<and> Product_objects
        (snd (ProductDeleteView demo_site 1 (demo_request GET AnonymousUser\<lparr>http_method := POST\<rparr>) demo_state)) =
       [demo_chair, demo_table\<lparr>archived := True\<rparr>]"
proof -
  have d: "distinct (map pk (Product_objects demo_state))"
    by (simp add: demo_state_def demo_table_def demo_chair_def)
  have m: "demo_table \<in> set (Product_objects demo_state)"
    by (simp add: demo_state_def)
  have k: "pk demo_table = 1" by (simp add: demo_table_def)
  have k': "pk demo_chair = 2" by (simp add: demo_chair_def)
  have r: "reverse demo_site ''shopapp:products_list'' = ''/shop/products/''"
    by (simp add: demo_site_def)
  have ps: "Product_objects demo_state = [demo_chair, demo_table]"
    by (simp add: demo_state_def)
  note t = delete_keeps_row_archived [OF d m, of demo_site "demo_request GET AnonymousUser",
      unfolded k r]
  have c3: "fst (ProductDeleteView demo_site 1 (demo_request GET AnonymousUser\<lparr>http_method := POST\<rparr>) demo_state) =
       HttpResponseRedirect ''/shop/products/''"
    using t by blast
  have c4: "get_object (Product_objects
        (snd (ProductDeleteView demo_site 1 (demo_request GET AnonymousUser\<lparr>http_method := POST\<rparr>) demo_state))) 1 =
       Inr (demo_table\<lparr>archived := True\<rparr>)"
    using t by blast
  have "snd (ProductDeleteView demo_site 1 (demo_request GET AnonymousUser\<lparr>http_method := POST\<rparr>) demo_state) =
       demo_state\<lparr>Product_objects :=
         map (\<lambda>q. if pk q = 1 then demo_table\<lparr>archived := True\<rparr> else q) (Product_objects demo_state)\<rparr>"
    using t by blast
  then have c5: "Product_objects
        (snd (ProductDeleteView demo_site 1 (demo_request GET AnonymousUser\<lparr>http_method := POST\<rparr>) demo_state)) =
       [demo_chair, demo_table\<lparr>archived := True\<rparr>]"
    by (simp add: ps k k')
  show ?thesis
    using d m c3 c4 c5 by (intro conjI)
qed

subsection \<open>C6: the order export denies a requester who is not staff\<close>

text \<open>
  C6. For a requester whose \<open>is_staff\<close> is false the order export answers
  \<open>PermissionDenied\<close> when the requester is authenticated and with the redirect to the
  login URL when not; in neither case is the answer a JSON body, and the state is
  unchanged.
\<close>

theorem orders_export_denied_without_staff:
  assumes "\<not> is_staff (user req)"
  shows "OrdersDataExportView st req s =
           (if is_authenticated (user req) then PermissionDenied
            else HttpResponseRedirect (LOGIN_URL st @ ''?next='' @ quote (full_path req)), s)
       \<and> (\<forall>j. fst (OrdersDataExportView st req s) \<noteq> JsonBody j)"
  using assms
  by (simp add: OrdersDataExportView_def UserPassesTestMixin_dispatch_def
      OrdersDataExportView_test_func_def handle_no_permission_def redirect_to_login_def)

theorem orders_export_denied_without_staff_witness:
  "\<not> is_staff (user (demo_request GET demo_customer))
   \<and> \<not> is_staff (user (demo_request GET AnonymousUser))
   \<and> OrdersDataExportView demo_site (demo_request GET demo_customer) demo_state = (PermissionDenied, demo_state)
   \<and> OrdersDataExportView demo_site (demo_request GET AnonymousUser) demo_state =
       (HttpResponseRedirect ''/accounts/login/?next=/shop/orders/'', demo_state)"
proof -
  have a: "\<not> is_staff (user (demo_request GET demo_customer))"
    by (simp add: demo_request_def demo_customer_def)
  have b: "\<not> is_staff (user (demo_request GET AnonymousUser))"
    by (simp add: demo_request_def)
  have c: "is_authenticated (user (demo_request GET demo_customer))"
    by (simp add: demo_request_def demo_customer_def)
  have d: "\<not> is_authenticated (user (demo_request GET AnonymousUser))"
    by (simp add: demo_request_def)
  have e: "full_path (demo_request GET AnonymousUser) = ''/shop/orders/''"
    by (simp add: demo_request_def)
  have f: "LOGIN_URL demo_site = ''/accounts/login/''"
    by (simp add: demo_site_def)
  show ?thesis
    using orders_export_denied_without_staff [OF a, of demo_site demo_state]
      orders_export_denied_without_staff [OF b, of demo_site demo_state] a b c d
    by (simp add: e f quote_demo)
qed

subsection \<open>C7: the order list redirects an anonymous requester\<close>

text \<open>
  C7. For an unauthenticated requester the order list answers with a redirect (status
  302) whose target contains the configured login URL, and renders no context.
\<close>

theorem orders_list_redirects_anonymous:
  assumes "\<not> is_authenticated (user req)"
  shows "OrdersListView st req s =
           (HttpResponseRedirect (LOGIN_URL st @ ''?next='' @ quote (full_path req)), s)
       \<and> status_code (fst (OrdersListView st req s)) = 302
       \<and> sublist (LOGIN_URL st) (LOGIN_URL st @ ''?next='' @ quote (full_path req))
       \<and> (\<forall>k. context_get (fst (OrdersListView st req s)) k = None)"
  using assms
  by (simp add: OrdersListView_def LoginRequiredMixin_dispatch_def handle_no_permission_def
      redirect_to_login_def context_get_def)

theorem orders_list_redirects_anonymous_witness:
  "\<not> is_authenticated (user (demo_request GET AnonymousUser))
   \<and> OrdersListView demo_site (demo_request GET AnonymousUser) demo_state =
       (HttpResponseRedirect ''/accounts/login/?next=/shop/orders/'', demo_state)
   \<and> status_code (fst (OrdersListView demo_site (demo_request GET AnonymousUser) demo_state)) = 302"
proof -
  have d: "\<not> is_authenticated (user (demo_request GET AnonymousUser))"
    by (simp add: demo_request_def)
  have e: "full_path (demo_request GET AnonymousUser) = ''/shop/orders/''"
    by (simp add: demo_request_def)
  have f: "LOGIN_URL demo_site = ''/accounts/login/''"
    by (simp add: demo_site_def)
  show ?thesis
    using orders_list_redirects_anonymous [OF d, of demo_site demo_state] d
    by (simp add: e f quote_demo)
qed

subsection \<open>C8: the cookie-set view\<close>

text \<open>
  C8, at a superuser. The cookie-set view is never reached: the import of
  \<open>myauth/views.py\<close> raises the \<open>IndentationError\<close> of line 133, so no response sets
  the cookie \<open>fizz\<close>.
\<close>

theorem set_cookie_view_raises_at_import:
  "is_superuser (user (demo_request GET demo_admin))
   \<and> set_cookie_view demo_site (demo_request GET demo_admin) demo_state =
        Inl (Unindent_mismatch 133)"
  by (simp add: set_cookie_view_def from_myauth_views_raises demo_request_def demo_admin_def)

subsection \<open>C9: archiving twice\<close>

text \<open>
  C9. For an archived product of a table with unique keys, the POST of the delete view
  leaves the whole state as it was and answers with the same redirect to the product
  list.
\<close>

theorem delete_idempotent:
  assumes d: "distinct (map pk (Product_objects s))" and m: "p \<in> set (Product_objects s)"
    and a: "archived p"
  shows "ProductDeleteView st (pk p) (req\<lparr>http_method := POST\<rparr>) s =
           (HttpResponseRedirect (reverse st ''shopapp:products_list''), s)"
proof -
  have p: "p\<lparr>archived := True\<rparr> = p" using a by simp
  have i: "map (\<lambda>q. if pk q = pk p then p else q) (Product_objects s) = Product_objects s"
    by (rule map_idI) (use pk_inj_rows[OF d m] in auto)
  have "s\<lparr>Product_objects := map (\<lambda>q. if pk q = pk p then p\<lparr>archived := True\<rparr> else q) (Product_objects s)\<rparr>
        = s\<lparr>Product_objects := Product_objects s\<rparr>"
    by (simp only: p i)
  also have "\<dots> = s" by simp
  finally show ?thesis
    using delete_post_existing[OF d m, of st req] by (simp only:)
qed

theorem delete_idempotent_witness:
  "distinct (map pk (Product_objects demo_state))
   \<and> demo_chair \<in> set (Product_objects demo_state)
   \<and> archived demo_chair
   \<and> ProductDeleteView demo_site 2 (demo_request GET AnonymousUser\<lparr>http_method := POST\<rparr>) demo_state =
       (HttpResponseRedirect ''/shop/products/'', demo_state)"
proof -
  have d: "distinct (map pk (Product_objects demo_state))"
    by (simp add: demo_state_def demo_table_def demo_chair_def)
  have m: "demo_chair \<in> set (Product_objects demo_state)"
    by (simp add: demo_state_def)
  have a: "archived demo_chair" by (simp add: demo_chair_def)
  have k': "pk demo_chair = 2" by (simp add: demo_chair_def)
  have r: "reverse demo_site ''shopapp:products_list'' = ''/shop/products/''"
    by (simp add: demo_site_def)
  show ?thesis
    using delete_idempotent [OF d m a, of demo_site "demo_request GET AnonymousUser"] d m a
    by (simp add: k' r)
qed

subsection \<open>C10: the cookie-get view\<close>

text \<open>
  C10, at an anonymous request with the cookie \<open>fizz\<close> of value \<open>buzz\<close>. The cookie-get
  view is never reached: the import of \<open>myauth/views.py\<close> raises the
  \<open>IndentationError\<close> of line 133, so there is no response of status 200.
\<close>

theorem get_cookie_view_raises_at_import:
  "map_of (COOKIES (demo_cookie_request ''buzz'')) ''fizz'' = Some ''buzz''
   \<and> get_cookie_view (demo_cookie_request ''buzz'') demo_state = Inl (Unindent_mismatch 133)"
  by (simp add: get_cookie_view_def from_myauth_views_raises demo_cookie_request_def)

end
